theory Spec2Isabelle
  imports Main "HOL-Library.Word"
begin

text \<open>
  A model of the chat page's client-side session and conversation manager: the
  session helpers over localStorage (\<open>getAllSessions\<close>, \<open>saveSession\<close>,
  \<open>setCurrentSession\<close>, \<open>getCurrentSession\<close>, \<open>createNewSession\<close>) and the state,
  effects and handlers of the \<open>ChatUI\<close> component. An asynchronous function is split
  at its \<open>await\<close>: the part that runs when it is called, and the continuation that
  runs, on the state the component has by then, when the request has settled.
\<close>

section \<open>JavaScript strings\<close>

text \<open>
  A JavaScript string is a sequence of UTF-16 code units; \<open>length\<close>, \<open>slice\<close> and
  \<open>===\<close> work on code units. A string is falsy exactly when it is empty.
\<close>

type_synonym code_unit = "16 word"
type_synonym jsstring = "code_unit list"

definition utf16 :: "string \<Rightarrow> jsstring" where
  "utf16 s = map of_char s"

text \<open>
  \<open>String.prototype.trim\<close> strips WhiteSpace and LineTerminator code points from both
  ends (ECMA-262: TAB, VT, FF, ZWNBSP, the Zs category, LF, CR, LS, PS).
\<close>

definition js_whitespace :: "code_unit \<Rightarrow> bool" where
  "js_whitespace c \<longleftrightarrow>
     c = 0x0009 \<or> c = 0x000A \<or> c = 0x000B \<or> c = 0x000C \<or> c = 0x000D \<or>
     c = 0x0020 \<or> c = 0x00A0 \<or> c = 0x1680 \<or> (0x2000 \<le> c \<and> c \<le> 0x200A) \<or>
     c = 0x2028 \<or> c = 0x2029 \<or> c = 0x202F \<or> c = 0x205F \<or> c = 0x3000 \<or> c = 0xFEFF"

definition trim :: "jsstring \<Rightarrow> jsstring" where
  "trim s = rev (dropWhile js_whitespace (rev (dropWhile js_whitespace s)))"

section \<open>Session directory and active session pointer (localStorage)\<close>

record session =
  id' :: jsstring
  preview :: jsstring
  timestamp :: nat

text \<open>
  The item stored under \<open>chat_sessions\<close>: absent (or the empty string), text that
  \<open>JSON.parse\<close> rejects, or a serialized array of sessions. Only \<open>saveSession\<close>
  writes the item, and what it writes is such an array.
\<close>

datatype stored_sessions = NoItem | Malformed | Parsed "session list"

record storage =
  chat_sessions :: stored_sessions
  chat_session_id :: "jsstring option"

text \<open>
  \<open>None\<close> is the environment in which \<open>typeof window === "undefined"\<close> (server-side
  rendering); \<open>Some ls\<close> is a browser with localStorage contents \<open>ls\<close>.
\<close>

type_synonym window = "storage option"

definition getAllSessions :: "window \<Rightarrow> session list" where
  "getAllSessions w =
     (case w of
        None \<Rightarrow> []
      | Some ls \<Rightarrow>
          (case chat_sessions ls of
             NoItem \<Rightarrow> []
           | Malformed \<Rightarrow> []
           | Parsed xs \<Rightarrow> xs))"

text \<open>
  \<open>existing.preview = preview; existing.timestamp = Date.now()\<close> assigns to the object
  that \<open>find\<close> returned, which is the first matching element of the array itself.
\<close>

fun assign_first :: "('a \<Rightarrow> bool) \<Rightarrow> ('a \<Rightarrow> 'a) \<Rightarrow> 'a list \<Rightarrow> 'a list" where
  "assign_first P f [] = []"
| "assign_first P f (x # xs) = (if P x then f x # xs else x # assign_first P f xs)"

text \<open>
  \<open>saveSession(sessionId, preview = "")\<close>: the argument is \<open>None\<close> when the caller omits
  it; \<open>now\<close> is the value of \<open>Date.now()\<close>.
\<close>

definition saveSession :: "window \<Rightarrow> jsstring \<Rightarrow> jsstring option \<Rightarrow> nat \<Rightarrow> window" where
  "saveSession w sessionId preview_arg now =
     (case w of
        None \<Rightarrow> None
      | Some ls \<Rightarrow>
          (let p = (case preview_arg of None \<Rightarrow> [] | Some v \<Rightarrow> v);
               sessions = getAllSessions w
           in case find (\<lambda>s. id' s = sessionId) sessions of
                None \<Rightarrow>
                  Some (ls\<lparr>chat_sessions := Parsed
                    (\<lparr>id' = sessionId,
                      preview = (if p \<noteq> [] then p else utf16 ''New conversation''),
                      timestamp = now\<rparr> # sessions)\<rparr>)
              | Some existing \<Rightarrow>
                  if p \<noteq> [] \<and> p \<noteq> preview existing
                  then Some (ls\<lparr>chat_sessions := Parsed
                    (assign_first (\<lambda>s. id' s = sessionId)
                       (\<lambda>s. s\<lparr>preview := p, timestamp := now\<rparr>) sessions)\<rparr>)
                  else w))"

definition setCurrentSession :: "window \<Rightarrow> jsstring \<Rightarrow> window" where
  "setCurrentSession w sessionId =
     (case w of
        None \<Rightarrow> None
      | Some ls \<Rightarrow> Some (ls\<lparr>chat_session_id := Some sessionId\<rparr>))"

definition getCurrentSession :: "window \<Rightarrow> jsstring" where
  "getCurrentSession w =
     (case w of
        None \<Rightarrow> []
      | Some ls \<Rightarrow> (case chat_session_id ls of None \<Rightarrow> [] | Some v \<Rightarrow> v))"

text \<open>\<open>newId\<close> is the value that \<open>uuidv4()\<close> returns.\<close>

definition createNewSession :: "window \<Rightarrow> jsstring \<Rightarrow> nat \<Rightarrow> window \<times> jsstring" where
  "createNewSession w newId now =
     (case w of
        None \<Rightarrow> (None, [])
      | Some ls \<Rightarrow> (saveSession (setCurrentSession w newId) newId None now, newId))"


section \<open>Messages and the external chat endpoint\<close>

datatype role = User | Model

record message =
  role :: role
  text' :: jsstring

definition user_message :: "jsstring \<Rightarrow> message" where
  "user_message t = \<lparr>role = User, text' = t\<rparr>"

definition model_message :: "jsstring \<Rightarrow> message" where
  "model_message t = \<lparr>role = Model, text' = t\<rparr>"

definition welcome_message :: message where
  "welcome_message =
     model_message (utf16 ''Hi! I'm your Gemini-powered assistant. Ask me anything.'')"

definition fallback_message :: message where
  "fallback_message =
     model_message (utf16 ''I ran into an issue sending that. Please try again.'')"

text \<open>
  The outcome of \<open>GET /api/chat?sessionId=...\<close> as \<open>loadHistory\<close> reads it: the
  \<open>fetch\<close> promise rejects, or it resolves with \<open>res.ok\<close> and a body whose
  \<open>messages\<close> field is an array of messages (\<open>None\<close> when the field is missing or the
  body is not JSON, where \<open>data\<close> is \<open>{}\<close>).
\<close>

datatype get_result = GetRejected | GetResponse bool "message list option"

text \<open>
  The outcome of \<open>POST /api/chat\<close> as \<open>sendMessage\<close> reads it: the \<open>fetch\<close> promise
  rejects with an error carrying a message; it resolves with \<open>res.ok\<close> false and an
  optional \<open>error\<close> string in the body; or it resolves with \<open>res.ok\<close> true and the
  \<open>reply\<close> string of the body. A success body without a \<open>reply\<close> string is outside
  the endpoint's interface and has no value in this type.
\<close>

datatype post_result = PostRejected jsstring | PostNotOk "jsstring option" | PostOk jsstring

text \<open>
  The fetch of the history gave nothing to show: it failed (a transport error or a
  non-success status), or the body carries no messages or an empty list of them.
\<close>

fun history_unavailable :: "get_result \<Rightarrow> bool" where
  "history_unavailable GetRejected = True"
| "history_unavailable (GetResponse ok None) = True"
| "history_unavailable (GetResponse ok (Some ms)) = (ms = [] \<or> \<not> ok)"


text \<open>The JSON body of the POST request.\<close>

record post_request =
  req_sessionId :: jsstring
  req_message :: jsstring

section \<open>The ChatUI component\<close>

text \<open>
  The React state of the component together with the browser storage it reads and
  writes. Every handler, effect and continuation after an \<open>await\<close> is one atomic step
  of the single event loop and maps the state before it to the state after it.
\<close>

record chat_ui =
  sessionId :: jsstring
  sessions :: "session list"
  showSidebar :: bool
  messages :: "message list"
  input :: jsstring
  isTyping :: bool
  isLoadingHistory :: bool
  error :: jsstring
  window :: window

definition initial_state :: "window \<Rightarrow> chat_ui" where
  "initial_state w =
     \<lparr>sessionId = [], sessions = [], showSidebar = False, messages = [], input = [],
      isTyping = False, isLoadingHistory = True, error = [], window = w\<rparr>"

text \<open>The effect that initializes the session on mount.\<close>

definition initSession :: "chat_ui \<Rightarrow> jsstring \<Rightarrow> nat \<Rightarrow> chat_ui" where
  "initSession s newId now =
     (let currentId = getCurrentSession (window s) in
      if currentId = []
      then (let (w', createdId) = createNewSession (window s) newId now
            in s\<lparr>window := w', sessionId := createdId, sessions := getAllSessions w'\<rparr>)
      else (let w' = saveSession (window s) currentId None now
            in s\<lparr>window := w', sessionId := currentId, sessions := getAllSessions w'\<rparr>))"

text \<open>
  \<open>loadHistory\<close> up to its \<open>await fetch(...)\<close>: the effect that runs when \<open>sessionId\<close>
  has changed. It returns the session id the request is issued for, which the
  continuation keeps in its closure.
\<close>

definition loadHistory :: "chat_ui \<Rightarrow> chat_ui \<times> jsstring option" where
  "loadHistory s =
     (if sessionId s = [] then (s, None)
      else (s\<lparr>isLoadingHistory := True\<rparr>, Some (sessionId s)))"

definition show_welcome :: "chat_ui \<Rightarrow> chat_ui" where
  "show_welcome s = s\<lparr>messages := [welcome_message]\<rparr>"

text \<open>
  \<open>loadHistory\<close> from the point where the request issued for \<open>target\<close> has settled
  with \<open>r\<close>, applied to the state \<open>s\<close> the component has at that time.
\<close>

definition loadHistory_resume :: "chat_ui \<Rightarrow> jsstring \<Rightarrow> get_result \<Rightarrow> nat \<Rightarrow> chat_ui" where
  "loadHistory_resume s target r now =
     (let s' =
        (case r of
           GetRejected \<Rightarrow> show_welcome s
         | GetResponse ok data \<Rightarrow>
             (case data of
                None \<Rightarrow> show_welcome s
              | Some ms \<Rightarrow>
                  if ok \<and> ms \<noteq> []
                  then (let s1 = s\<lparr>messages := ms\<rparr> in
                        case find (\<lambda>m. role m = User) ms of
                          None \<Rightarrow> s1
                        | Some firstUserMsg \<Rightarrow>
                            (let w' = saveSession (window s1) target
                                        (Some (take 50 (text' firstUserMsg))) now
                             in s1\<lparr>window := w', sessions := getAllSessions w'\<rparr>))
                  else show_welcome s))
      in s'\<lparr>isLoadingHistory := False\<rparr>)"

definition handleNewChat :: "chat_ui \<Rightarrow> jsstring \<Rightarrow> nat \<Rightarrow> chat_ui" where
  "handleNewChat s newId now =
     (let (w', createdId) = createNewSession (window s) newId now
      in s\<lparr>window := w', sessionId := createdId, sessions := getAllSessions w',
           messages := [], error := []\<rparr>)"

definition handleSwitchSession :: "chat_ui \<Rightarrow> jsstring \<Rightarrow> chat_ui" where
  "handleSwitchSession s i =
     (if i = sessionId s then s
      else s\<lparr>window := setCurrentSession (window s) i, sessionId := i,
             showSidebar := False, error := []\<rparr>)"

text \<open>The \<open>onChange\<close> handler of the input field.\<close>

definition setInput :: "chat_ui \<Rightarrow> jsstring \<Rightarrow> chat_ui" where
  "setInput s v = s\<lparr>input := v\<rparr>"

text \<open>
  \<open>sendMessage\<close> up to its \<open>await fetch(...)\<close>. The second component is the POST request
  issued, \<open>None\<close> when the handler returns before issuing one.
\<close>

definition sendMessage :: "chat_ui \<Rightarrow> nat \<Rightarrow> chat_ui \<times> post_request option" where
  "sendMessage s now =
     (let s0 = s\<lparr>error := []\<rparr>;
          trimmed = trim (input s)
      in if trimmed = [] \<or> isTyping s \<or> sessionId s = [] then (s0, None)
         else
           (let s1 = s0\<lparr>messages := messages s @ [user_message trimmed],
                        input := [], isTyping := True\<rparr>;
                s2 = (if length (messages s) \<le> 1
                      then (let w' = saveSession (window s) (sessionId s)
                                       (Some (take 50 trimmed)) now
                            in s1\<lparr>window := w', sessions := getAllSessions w'\<rparr>)
                      else s1)
            in (s2, Some \<lparr>req_sessionId = sessionId s, req_message = trimmed\<rparr>)))"

text \<open>The \<open>catch\<close> and \<open>finally\<close> blocks of \<open>sendMessage\<close> for an error with message \<open>m\<close>.\<close>

definition send_failed :: "chat_ui \<Rightarrow> jsstring \<Rightarrow> chat_ui" where
  "send_failed s m =
     s\<lparr>error := (if m \<noteq> [] then m else utf16 ''Something went wrong.''),
       messages := messages s @ [fallback_message],
       isTyping := False\<rparr>"

text \<open>
  \<open>sendMessage\<close> from the point where its request has settled with \<open>r\<close>, applied to the
  state \<open>s\<close> the component has at that time. The functional updates
  \<open>setMessages((prev) => [...prev, m])\<close> append to the list displayed then.
\<close>

definition sendMessage_resume :: "chat_ui \<Rightarrow> post_result \<Rightarrow> chat_ui" where
  "sendMessage_resume s r =
     (case r of
        PostRejected m \<Rightarrow> send_failed s m
      | PostNotOk e \<Rightarrow>
          send_failed s
            (case e of
               None \<Rightarrow> utf16 ''Request failed.''
             | Some m \<Rightarrow> if m \<noteq> [] then m else utf16 ''Request failed.'')
      | PostOk reply \<Rightarrow>
          s\<lparr>messages := messages s @ [model_message reply], isTyping := False\<rparr>)"

section \<open>Example states\<close>

text \<open>
  A directory of two sessions with the pointer on the older one, and a run of the
  component in that browser: mount, the history of session A arrives, the user submits
  a second question.
\<close>

definition example_sessions :: "session list" where
  "example_sessions =
     [\<lparr>id' = utf16 ''B'', preview = utf16 ''New conversation'', timestamp = 20\<rparr>,
      \<lparr>id' = utf16 ''A'', preview = utf16 ''first question'', timestamp = 10\<rparr>]"

definition example_directory :: window where
  "example_directory =
     Some \<lparr>chat_sessions = Parsed example_sessions, chat_session_id = Some (utf16 ''A'')\<rparr>"

definition history_A :: "message list" where
  "history_A =
     [user_message (utf16 ''first question''), model_message (utf16 ''first answer'')]"

definition mounted_A :: chat_ui where
  "mounted_A = initSession (initial_state example_directory) (utf16 ''C'') 30"

definition ready_A :: chat_ui where
  "ready_A =
     loadHistory_resume (fst (loadHistory mounted_A)) (utf16 ''A'')
       (GetResponse True (Some history_A)) 31"

definition sending_A :: chat_ui where
  "sending_A = fst (sendMessage (setInput ready_A (utf16 '' second question '')) 32)"

text \<open>The exchange for the second question fails with a status and no reason.\<close>

definition failed_A :: chat_ui where
  "failed_A = sendMessage_resume sending_A (PostNotOk None)"

text \<open>
  The user starts a new chat C from there; its (empty) history arrives; the first
  message typed is 120 characters long.
\<close>

definition new_chat_C :: chat_ui where
  "new_chat_C = handleNewChat ready_A (utf16 ''C'') 50"

definition ready_C :: chat_ui where
  "ready_C =
     loadHistory_resume (fst (loadHistory new_chat_C)) (utf16 ''C'')
       (GetResponse True (Some [])) 51"

definition long_text :: jsstring where
  "long_text = replicate 120 0x0061"

definition directory_C :: window where
  "directory_C =
     Some \<lparr>chat_sessions = Parsed
             (\<lparr>id' = utf16 ''C'', preview = utf16 ''New conversation'', timestamp = 50\<rparr>
                # example_sessions),
           chat_session_id = Some (utf16 ''C'')\<rparr>"

text \<open>
  While the second question of session A is in flight, the user switches to session
  B, whose history arrives first and is empty.
\<close>

definition directory_B :: window where
  "directory_B =
     Some \<lparr>chat_sessions = Parsed example_sessions, chat_session_id = Some (utf16 ''B'')\<rparr>"

definition switched_B :: chat_ui where
  "switched_B = handleSwitchSession sending_A (utf16 ''B'')"

definition ready_B :: chat_ui where
  "ready_B =
     loadHistory_resume (fst (loadHistory switched_B)) (utf16 ''B'')
       (GetResponse True (Some [])) 33"

text \<open>
  Right after mount, with the history of session A still being fetched, the user
  switches to session B; the history of B arrives first.
\<close>

definition racing_loads :: chat_ui where
  "racing_loads =
     fst (loadHistory (handleSwitchSession (fst (loadHistory mounted_A)) (utf16 ''B'')))"

definition shown_B :: chat_ui where
  "shown_B = loadHistory_resume racing_loads (utf16 ''B'') (GetResponse True (Some [])) 31"

text \<open>
  Right after mount, with the history of session A still being fetched, the user
  submits a message; the history arrives while that message's exchange is in flight.
\<close>

definition early_send :: chat_ui where
  "early_send = fst (sendMessage (setInput (fst (loadHistory mounted_A)) (utf16 ''hello'')) 31)"


section \<open>Facts about the session directory\<close>

lemma find_first_index:
  "find P xs = Some e \<Longrightarrow>
     length (takeWhile (\<lambda>x. \<not> P x) xs) < length xs \<and> xs ! length (takeWhile (\<lambda>x. \<not> P x) xs) = e"
  by (induction xs) (auto split: if_splits)

lemma assign_first_list_update:
  "find P xs = Some e \<Longrightarrow>
     assign_first P f xs = xs[length (takeWhile (\<lambda>x. \<not> P x) xs) := f e]"
  by (induction xs) (auto split: if_splits)

lemma find_present:
  "k \<in> id' ` set xs \<Longrightarrow> \<exists>e. find (\<lambda>s. id' s = k) xs = Some e \<and> id' e = k"
  by (induction xs) auto

lemma saveSession_known:
  assumes "find (\<lambda>s. id' s = sid) (getAllSessions w) = Some e"
  shows "saveSession w sid arg now =
     (let p = (case arg of None \<Rightarrow> [] | Some v \<Rightarrow> v) in
      if p \<noteq> [] \<and> p \<noteq> preview e
      then map_option (\<lambda>ls. ls\<lparr>chat_sessions := Parsed
             (assign_first (\<lambda>s. id' s = sid) (\<lambda>s. s\<lparr>preview := p, timestamp := now\<rparr>)
                (getAllSessions w))\<rparr>) w
      else w)"
  using assms by (cases w) (auto simp: saveSession_def getAllSessions_def Let_def)

text \<open>
  Claim C7. For a session id that is present in the directory, \<open>saveSession\<close> called
  without a preview, or with the preview that the entry found for the id already
  stores, returns the browser storage as it was: no entry's timestamp changes and
  nothing is written.
\<close>

theorem touch_without_new_preview_is_noop:
  assumes "sid \<in> id' ` set (getAllSessions w)"
  shows "\<exists>e. find (\<lambda>s. id' s = sid) (getAllSessions w) = Some e \<and> id' e = sid
           \<and> saveSession w sid None now = w
           \<and> saveSession w sid (Some (preview e)) now = w"
proof -
  from assms obtain e where e: "find (\<lambda>s. id' s = sid) (getAllSessions w) = Some e" "id' e = sid"
    using find_present by blast
  have "saveSession w sid None now = w"
    by (simp add: saveSession_known [OF e(1)])
  moreover have "saveSession w sid (Some (preview e)) now = w"
    by (simp add: saveSession_known [OF e(1)])
  ultimately show ?thesis using e by blast
qed

theorem touch_without_new_preview_is_noop_witness:
  "utf16 ''A'' \<in> id' ` set (getAllSessions example_directory)
   \<and> saveSession example_directory (utf16 ''A'') None 99 = example_directory
   \<and> saveSession example_directory (utf16 ''A'') (Some (utf16 ''first question'')) 99
       = example_directory"
proof -
  have h: "utf16 ''A'' \<in> id' ` set (getAllSessions example_directory)"
    by (simp add: example_directory_def example_sessions_def getAllSessions_def utf16_def)
  from touch_without_new_preview_is_noop [OF h, of 99]
  obtain e where e: "find (\<lambda>s. id' s = utf16 ''A'') (getAllSessions example_directory) = Some e"
    and noop: "saveSession example_directory (utf16 ''A'') None 99 = example_directory"
      "saveSession example_directory (utf16 ''A'') (Some (preview e)) 99 = example_directory"
    by blast
  have "preview e = utf16 ''first question''"
    using e by (auto simp: example_directory_def example_sessions_def getAllSessions_def utf16_def)
  with h noop show ?thesis by simp
qed

text \<open>
  Claim C10. When \<open>saveSession\<close> is called for a known id with a non-empty preview that
  differs from the stored one, the directory afterwards is the directory before with
  the entry found for the id replaced, at its own position, by the same entry with
  the new preview and timestamp: the length, the sequence of ids, every other entry
  and the active session pointer are as before.
\<close>

theorem touch_with_new_preview_frame:
  assumes found: "find (\<lambda>s. id' s = sid) (getAllSessions w) = Some e"
      and "p \<noteq> []" and "p \<noteq> preview e"
  shows "let xs = getAllSessions w;
             w' = saveSession w sid (Some p) now;
             xs' = getAllSessions w';
             i = length (takeWhile (\<lambda>s. id' s \<noteq> sid) xs)
         in i < length xs \<and> xs ! i = e \<and> id' e = sid
            \<and> xs' = xs[i := e\<lparr>preview := p, timestamp := now\<rparr>]
            \<and> length xs' = length xs
            \<and> map id' xs' = map id' xs
            \<and> (\<forall>j. j < length xs \<and> j \<noteq> i \<longrightarrow> xs' ! j = xs ! j)
            \<and> map_option chat_session_id w' = map_option chat_session_id w"
proof -
  let ?xs = "getAllSessions w"
  let ?i = "length (takeWhile (\<lambda>s. id' s \<noteq> sid) ?xs)"
  let ?e' = "e\<lparr>preview := p, timestamp := now\<rparr>"
  from found obtain ls where w: "w = Some ls"
    by (cases w) (auto simp: getAllSessions_def)
  have i: "?i < length ?xs" "?xs ! ?i = e"
    using find_first_index [OF found] by simp_all
  have ide: "id' e = sid"
    using found by (auto simp: find_Some_iff)
  have save: "saveSession w sid (Some p) now =
      Some (ls\<lparr>chat_sessions := Parsed (?xs[?i := ?e'])\<rparr>)"
  proof -
    have "saveSession w sid (Some p) now =
        map_option (\<lambda>ls. ls\<lparr>chat_sessions := Parsed (?xs[?i := ?e'])\<rparr>) w"
      using assms(2,3)
      by (simp add: saveSession_known [OF found] assign_first_list_update [OF found])
    then show ?thesis by (simp add: w)
  qed
  have xs': "getAllSessions (saveSession w sid (Some p) now) = ?xs[?i := ?e']"
    by (simp add: save getAllSessions_def)
  have ids: "map id' (?xs[?i := ?e']) = map id' ?xs"
    using i ide by (simp add: map_update list_update_same_conv)
  have ptr: "map_option chat_session_id (saveSession w sid (Some p) now) = map_option chat_session_id w"
    by (subst save) (simp add: w)
  show ?thesis
    unfolding Let_def xs' using i ide ids ptr by simp
qed

theorem touch_with_new_preview_frame_witness:
  "getAllSessions (saveSession example_directory (utf16 ''A'') (Some (utf16 ''second'')) 99) =
     [\<lparr>id' = utf16 ''B'', preview = utf16 ''New conversation'', timestamp = 20\<rparr>,
      \<lparr>id' = utf16 ''A'', preview = utf16 ''second'', timestamp = 99\<rparr>]"
proof -
  have found: "find (\<lambda>s. id' s = utf16 ''A'') (getAllSessions example_directory) =
      Some \<lparr>id' = utf16 ''A'', preview = utf16 ''first question'', timestamp = 10\<rparr>"
    by (simp add: example_directory_def example_sessions_def getAllSessions_def utf16_def)
  have ne: "utf16 ''second'' \<noteq> []"
    by (simp add: utf16_def)
  have diff: "utf16 ''second'' \<noteq>
      preview \<lparr>id' = utf16 ''A'', preview = utf16 ''first question'', timestamp = 10\<rparr>"
    by (simp add: utf16_def)
  have xs: "getAllSessions example_directory =
     [\<lparr>id' = utf16 ''B'', preview = utf16 ''New conversation'', timestamp = 20\<rparr>,
      \<lparr>id' = utf16 ''A'', preview = utf16 ''first question'', timestamp = 10\<rparr>]"
    by (simp add: example_directory_def example_sessions_def getAllSessions_def)
  have i: "length (takeWhile (\<lambda>s. id' s \<noteq> utf16 ''A'') (getAllSessions example_directory)) = 1"
    by (simp add: xs utf16_def)
  from touch_with_new_preview_frame [OF found ne diff, of 99]
  have "getAllSessions (saveSession example_directory (utf16 ''A'') (Some (utf16 ''second'')) 99) =
      (getAllSessions example_directory)
        [length (takeWhile (\<lambda>s. id' s \<noteq> utf16 ''A'') (getAllSessions example_directory)) :=
           \<lparr>id' = utf16 ''A'', preview = utf16 ''first question'', timestamp = 10\<rparr>
             \<lparr>preview := utf16 ''second'', timestamp := 99\<rparr>]"
    unfolding Let_def by blast
  then show ?thesis
    unfolding i by (simp add: xs)
qed

section \<open>The example run, step by step\<close>

lemma utf16_nonempty [simp]: "utf16 s = [] \<longleftrightarrow> s = []"
  by (simp add: utf16_def)

lemma directory_of_example [simp]: "getAllSessions example_directory = example_sessions"
  by (simp add: example_directory_def getAllSessions_def)

lemma find_A_example:
  "find (\<lambda>s. id' s = utf16 ''A'') example_sessions =
     Some \<lparr>id' = utf16 ''A'', preview = utf16 ''first question'', timestamp = 10\<rparr>"
  by (simp add: example_sessions_def utf16_def)

lemma mounted_A_eq:
  "mounted_A =
     \<lparr>sessionId = utf16 ''A'', sessions = example_sessions, showSidebar = False,
      messages = [], input = [], isTyping = False, isLoadingHistory = True, error = [],
      window = example_directory\<rparr>"
proof -
  have ptr: "getCurrentSession example_directory = utf16 ''A''"
    by (simp add: getCurrentSession_def example_directory_def)
  have keep: "saveSession example_directory (utf16 ''A'') None 30 = example_directory"
    by (simp add: saveSession_def example_directory_def getAllSessions_def find_A_example)
  show ?thesis
    by (simp add: mounted_A_def initSession_def initial_state_def ptr keep Let_def)
qed

lemma ready_A_eq:
  "ready_A =
     \<lparr>sessionId = utf16 ''A'', sessions = example_sessions, showSidebar = False,
      messages = history_A, input = [], isTyping = False, isLoadingHistory = False,
      error = [], window = example_directory\<rparr>"
proof -
  have first: "find (\<lambda>m. role m = User) history_A = Some (user_message (utf16 ''first question''))"
    by (simp add: history_A_def user_message_def)
  have short: "take 50 (text' (user_message (utf16 ''first question''))) = utf16 ''first question''"
    by (simp add: user_message_def utf16_def)
  have keep: "saveSession example_directory (utf16 ''A'') (Some (utf16 ''first question'')) 31
      = example_directory"
    by (simp add: saveSession_def example_directory_def getAllSessions_def find_A_example)
  have ne: "history_A \<noteq> []"
    by (simp add: history_A_def)
  show ?thesis
    by (simp add: ready_A_def loadHistory_def loadHistory_resume_def mounted_A_eq
          first short keep ne Let_def)
qed

lemma trim_second_question: "trim (utf16 '' second question '') = utf16 ''second question''"
  by (simp add: trim_def utf16_def js_whitespace_def)

lemma sending_A_eq:
  "sending_A =
     \<lparr>sessionId = utf16 ''A'', sessions = example_sessions, showSidebar = False,
      messages = history_A @ [user_message (utf16 ''second question'')], input = [],
      isTyping = True, isLoadingHistory = False, error = [], window = example_directory\<rparr>"
  by (simp add: sending_A_def sendMessage_def setInput_def ready_A_eq trim_second_question
        history_A_def Let_def)

lemma failed_A_eq:
  "failed_A =
     \<lparr>sessionId = utf16 ''A'', sessions = example_sessions, showSidebar = False,
      messages = history_A @ [user_message (utf16 ''second question''), fallback_message],
      input = [], isTyping = False, isLoadingHistory = False,
      error = utf16 ''Request failed.'', window = example_directory\<rparr>"
  by (simp add: failed_A_def sendMessage_resume_def send_failed_def sending_A_eq)

section \<open>The optimistic send protocol\<close>

lemma send_accepts:
  assumes "trim (input s) \<noteq> []" "\<not> isTyping s" "sessionId s \<noteq> []"
  shows "sendMessage s now =
     ((if length (messages s) \<le> 1
       then (let w' = saveSession (window s) (sessionId s) (Some (take 50 (trim (input s)))) now
             in s\<lparr>error := [], messages := messages s @ [user_message (trim (input s))],
                  input := [], isTyping := True, window := w', sessions := getAllSessions w'\<rparr>)
       else s\<lparr>error := [], messages := messages s @ [user_message (trim (input s))],
               input := [], isTyping := True\<rparr>),
      Some \<lparr>req_sessionId = sessionId s, req_message = trim (input s)\<rparr>)"
  using assms by (simp add: sendMessage_def Let_def)

lemma send_accepts_fields:
  assumes "trim (input s) \<noteq> []" "\<not> isTyping s" "sessionId s \<noteq> []"
  shows "messages (fst (sendMessage s now)) = messages s @ [user_message (trim (input s))]"
    and "input (fst (sendMessage s now)) = []"
    and "isTyping (fst (sendMessage s now))"
    and "error (fst (sendMessage s now)) = []"
    and "sessionId (fst (sendMessage s now)) = sessionId s"
    and "snd (sendMessage s now) = Some \<lparr>req_sessionId = sessionId s, req_message = trim (input s)\<rparr>"
  using assms by (simp_all add: send_accepts Let_def)



lemma typed_second_question:
  "trim (input (setInput ready_A (utf16 '' second question ''))) = utf16 ''second question''"
  "\<not> isTyping (setInput ready_A (utf16 '' second question ''))"
  "sessionId (setInput ready_A (utf16 '' second question '')) = utf16 ''A''"
  "messages (setInput ready_A (utf16 '' second question '')) = history_A"
  by (simp_all add: setInput_def ready_A_eq trim_second_question)

text \<open>
  Claim C4. When \<open>sendMessage\<close> runs with a trimmed input that is non-empty, no send in
  flight and a session id, the state it leaves at its \<open>await\<close>, before the request
  settles, has the user message with the trimmed text as the last element of the
  message list, and an empty input field.
\<close>

theorem send_appends_user_message_at_once:
  assumes "trim (input s) \<noteq> []" and "\<not> isTyping s" and "sessionId s \<noteq> []"
  shows "messages (fst (sendMessage s now)) \<noteq> []
       \<and> last (messages (fst (sendMessage s now))) = \<lparr>role = User, text' = trim (input s)\<rparr>
       \<and> messages (fst (sendMessage s now)) = messages s @ [\<lparr>role = User, text' = trim (input s)\<rparr>]
       \<and> input (fst (sendMessage s now)) = []
       \<and> isTyping (fst (sendMessage s now))"
  using assms by (simp add: send_accepts_fields user_message_def)

theorem send_appends_user_message_at_once_witness:
  "last (messages (fst (sendMessage (setInput ready_A (utf16 '' second question '')) 32))) =
     \<lparr>role = User, text' = utf16 ''second question''\<rparr>
   \<and> input (fst (sendMessage (setInput ready_A (utf16 '' second question '')) 32)) = []"
proof -
  let ?s = "setInput ready_A (utf16 '' second question '')"
  have g: "trim (input ?s) \<noteq> []" "\<not> isTyping ?s" "sessionId ?s \<noteq> []"
    by (simp_all add: typed_second_question)
  from send_appends_user_message_at_once [OF g, of 32] show ?thesis
    by (simp add: typed_second_question)
qed

text \<open>
  Claim C5, as the code has it. A call of \<open>sendMessage\<close> whose trimmed input is empty,
  or that finds a send in flight, or no session id, issues no request and leaves the
  message list, the input, the sending flag, the directory and everything else as
  they were, except that it sets the error field to the empty string:
  \<open>setError("")\<close> runs before the preconditions are tested.
\<close>

theorem rejected_send_only_clears_error:
  assumes "trim (input s) = [] \<or> isTyping s \<or> sessionId s = []"
  shows "sendMessage s now = (s\<lparr>error := []\<rparr>, None)"
  using assms by (auto simp: sendMessage_def Let_def)

theorem rejected_send_only_clears_error_witness:
  "trim (input failed_A) = [] \<and> sendMessage failed_A 40 = (failed_A\<lparr>error := []\<rparr>, None)"
proof -
  have g: "trim (input failed_A) = [] \<or> isTyping failed_A \<or> sessionId failed_A = []"
    by (simp add: failed_A_eq trim_def)
  from rejected_send_only_clears_error [OF g, of 40] show ?thesis
    by (simp add: failed_A_eq trim_def)
qed

text \<open>
  Claim C5 as stated fails: after the failed exchange of the example run the input is
  empty and the error field holds the failure text; submitting then violates the
  precondition, and the call changes the error field.
\<close>

theorem rejected_send_changes_error_counterexample:
  "trim (input failed_A) = []
   \<and> snd (sendMessage failed_A 40) = None
   \<and> error failed_A = utf16 ''Request failed.''
   \<and> error (fst (sendMessage failed_A 40)) = []
   \<and> error (fst (sendMessage failed_A 40)) \<noteq> error failed_A"
  by (simp add: sendMessage_def failed_A_eq trim_def utf16_def)

section \<open>The preview of the first message\<close>

lemma find_assign_first:
  "(\<And>x. P x \<Longrightarrow> P (f x)) \<Longrightarrow> find P (assign_first P f xs) = map_option f (find P xs)"
  by (induction xs) auto

lemma saveSession_stores_preview:
  assumes "w \<noteq> None" and "p \<noteq> []"
  shows "\<exists>e. find (\<lambda>x. id' x = sid) (getAllSessions (saveSession w sid (Some p) now)) = Some e
             \<and> id' e = sid \<and> preview e = p"
proof -
  from assms(1) obtain ls where w: "w = Some ls" by auto
  show ?thesis
  proof (cases "find (\<lambda>x. id' x = sid) (getAllSessions w)")
    case None
    then have "saveSession w sid (Some p) now =
        Some (ls\<lparr>chat_sessions := Parsed
          (\<lparr>id' = sid, preview = p, timestamp = now\<rparr> # getAllSessions w)\<rparr>)"
      using assms(2) by (simp add: saveSession_def w Let_def)
    then show ?thesis
      by (simp add: getAllSessions_def)
  next
    case (Some e)
    then have ide: "id' e = sid"
      by (auto simp: find_Some_iff)
    show ?thesis
    proof (cases "p = preview e")
      case True
      then have "saveSession w sid (Some p) now = w"
        by (simp add: saveSession_known [OF Some])
      with Some ide True show ?thesis by simp
    next
      case False
      let ?upd = "\<lambda>x::session. x\<lparr>preview := p, timestamp := now\<rparr>"
      have "saveSession w sid (Some p) now =
          map_option (\<lambda>ls. ls\<lparr>chat_sessions := Parsed
            (assign_first (\<lambda>x. id' x = sid) ?upd (getAllSessions w))\<rparr>) w"
        using False assms(2) by (simp add: saveSession_known [OF Some])
      then have "saveSession w sid (Some p) now =
          Some (ls\<lparr>chat_sessions := Parsed
            (assign_first (\<lambda>x. id' x = sid) ?upd (getAllSessions w))\<rparr>)"
        by (simp add: w)
      then have "getAllSessions (saveSession w sid (Some p) now) =
          assign_first (\<lambda>x. id' x = sid) ?upd (getAllSessions w)"
        by (simp add: getAllSessions_def)
      then have "find (\<lambda>x. id' x = sid) (getAllSessions (saveSession w sid (Some p) now)) =
          Some (?upd e)"
        by (simp add: find_assign_first Some)
      with ide show ?thesis by simp
    qed
  qed
qed

lemma trim_nonempty_take: "t \<noteq> [] \<Longrightarrow> take 50 t \<noteq> []"
  by (cases t) simp_all

text \<open>
  Claim C8. An accepted send in a browser: when the message list holds at most one
  message before the append, the entry that the directory then has for the active
  session carries as preview exactly the first 50 code units of the trimmed text (50
  of them when the text has 120), and the component's copy of the directory is
  refreshed; when the list holds more than one message, the send leaves the
  directory, and so every preview, untouched.
\<close>

theorem first_send_sets_preview:
  assumes "trim (input s) \<noteq> []" and "\<not> isTyping s" and "sessionId s \<noteq> []"
      and "window s \<noteq> None"
  shows "(length (messages s) \<le> 1 \<longrightarrow>
            (\<exists>e. find (\<lambda>x. id' x = sessionId s)
                     (getAllSessions (window (fst (sendMessage s now)))) = Some e
                \<and> preview e = take 50 (trim (input s))
                \<and> (length (trim (input s)) = 120 \<longrightarrow> length (preview e) = 50))
            \<and> sessions (fst (sendMessage s now)) =
                getAllSessions (window (fst (sendMessage s now))))
       \<and> (1 < length (messages s) \<longrightarrow>
            window (fst (sendMessage s now)) = window s
            \<and> sessions (fst (sendMessage s now)) = sessions s)"
proof (intro conjI impI)
  assume first: "length (messages s) \<le> 1"
  let ?p = "take 50 (trim (input s))"
  have w': "window (fst (sendMessage s now)) = saveSession (window s) (sessionId s) (Some ?p) now"
    using first by (simp add: send_accepts [OF assms(1-3)] Let_def)
  from saveSession_stores_preview [OF assms(4) trim_nonempty_take [OF assms(1)]]
  obtain e where "find (\<lambda>x. id' x = sessionId s)
      (getAllSessions (saveSession (window s) (sessionId s) (Some ?p) now)) = Some e"
    and "preview e = ?p"
    by blast
  then show "\<exists>e. find (\<lambda>x. id' x = sessionId s)
                     (getAllSessions (window (fst (sendMessage s now)))) = Some e
                \<and> preview e = take 50 (trim (input s))
                \<and> (length (trim (input s)) = 120 \<longrightarrow> length (preview e) = 50)"
    unfolding w' by auto
  show "sessions (fst (sendMessage s now)) = getAllSessions (window (fst (sendMessage s now)))"
    using first by (simp add: send_accepts [OF assms(1-3)] Let_def)
next
  assume later: "1 < length (messages s)"
  then show "window (fst (sendMessage s now)) = window s"
    by (simp add: send_accepts [OF assms(1-3)])
  from later show "sessions (fst (sendMessage s now)) = sessions s"
    by (simp add: send_accepts [OF assms(1-3)])
qed

lemma new_chat_C_eq:
  "new_chat_C =
     \<lparr>sessionId = utf16 ''C'',
      sessions = \<lparr>id' = utf16 ''C'', preview = utf16 ''New conversation'', timestamp = 50\<rparr>
                   # example_sessions,
      showSidebar = False, messages = [], input = [], isTyping = False,
      isLoadingHistory = False, error = [], window = directory_C\<rparr>"
proof -
  have fresh: "find (\<lambda>s. id' s = utf16 ''C'') example_sessions = None"
    by (simp add: example_sessions_def utf16_def)
  have created: "createNewSession example_directory (utf16 ''C'') 50 = (directory_C, utf16 ''C'')"
    by (simp add: createNewSession_def setCurrentSession_def saveSession_def getAllSessions_def
          example_directory_def directory_C_def fresh Let_def)
  have dir: "getAllSessions directory_C =
      \<lparr>id' = utf16 ''C'', preview = utf16 ''New conversation'', timestamp = 50\<rparr> # example_sessions"
    by (simp add: directory_C_def getAllSessions_def)
  show ?thesis
    by (simp add: new_chat_C_def handleNewChat_def ready_A_eq created dir)
qed

lemma ready_C_eq:
  "ready_C = new_chat_C\<lparr>messages := [welcome_message]\<rparr>"
  by (simp add: ready_C_def loadHistory_def loadHistory_resume_def show_welcome_def
        new_chat_C_eq Let_def)

lemma trim_long_text: "trim long_text = long_text"
  by (simp add: trim_def long_text_def js_whitespace_def)

lemma typed_long_text:
  "trim (input (setInput ready_C long_text)) = long_text"
  "\<not> isTyping (setInput ready_C long_text)"
  "sessionId (setInput ready_C long_text) = utf16 ''C''"
  "messages (setInput ready_C long_text) = [welcome_message]"
  "window (setInput ready_C long_text) = directory_C"
  by (simp_all add: setInput_def ready_C_eq new_chat_C_eq trim_long_text)

theorem first_send_sets_preview_witness:
  "length long_text = 120
   \<and> map_option preview
        (find (\<lambda>x. id' x = utf16 ''C'')
           (getAllSessions (window (fst (sendMessage (setInput ready_C long_text) 52))))) =
       Some (replicate 50 0x0061)
   \<and> window (fst (sendMessage (setInput ready_A (utf16 '' second question '')) 32)) =
       window ready_A"
proof -
  let ?c = "setInput ready_C long_text"
  let ?a = "setInput ready_A (utf16 '' second question '')"
  have gc: "trim (input ?c) \<noteq> []" "\<not> isTyping ?c" "sessionId ?c \<noteq> []" "window ?c \<noteq> None"
    by (simp_all add: typed_long_text) (simp_all add: long_text_def directory_C_def)
  have ga: "trim (input ?a) \<noteq> []" "\<not> isTyping ?a" "sessionId ?a \<noteq> []" "window ?a \<noteq> None"
    by (simp_all add: typed_second_question) (simp add: setInput_def ready_A_eq example_directory_def)
  have len: "length long_text = 120"
    by (simp add: long_text_def)
  have one: "length (messages ?c) \<le> 1"
    by (simp add: typed_long_text)
  from first_send_sets_preview [OF gc, of 52] one
  obtain e where "find (\<lambda>x. id' x = sessionId ?c)
        (getAllSessions (window (fst (sendMessage ?c 52)))) = Some e"
    and "preview e = take 50 (trim (input ?c))"
    by blast
  then have c: "map_option preview
        (find (\<lambda>x. id' x = utf16 ''C'') (getAllSessions (window (fst (sendMessage ?c 52))))) =
       Some (replicate 50 0x0061)"
    by (simp add: typed_long_text) (simp add: long_text_def)
  have two: "1 < length (messages ?a)"
    by (simp add: typed_second_question history_A_def)
  from first_send_sets_preview [OF ga, of 32] two
  have a: "window (fst (sendMessage ?a 32)) = window ready_A"
    by (simp add: setInput_def)
  from len c a show ?thesis by simp
qed

section \<open>Loading the history\<close>

lemma resume_without_history:
  assumes "history_unavailable r"
  shows "loadHistory_resume s target r now =
           s\<lparr>messages := [welcome_message], isLoadingHistory := False\<rparr>"
  using assms
  by (cases r rule: history_unavailable.cases)
     (auto simp: loadHistory_resume_def show_welcome_def)

lemma send_request_ignores_messages:
  "snd (sendMessage (u\<lparr>messages := ms\<rparr>) n) = snd (sendMessage u n)"
  by (simp add: sendMessage_def Let_def)

lemma load_request_ignores_messages:
  "snd (loadHistory (u\<lparr>messages := ms\<rparr>)) = snd (loadHistory u)"
  by (simp add: loadHistory_def)

text \<open>
  Claim C6. When the history fetch fails or returns no messages, the continuation of
  \<open>loadHistory\<close> sets the message list to exactly the one synthetic welcome message, of
  role model, and leaves the error field (and the browser storage) as they were. The
  synthetic message is never sent: the two requests the component issues, the GET of
  \<open>loadHistory\<close> and the POST of \<open>sendMessage\<close>, carry the session id and the trimmed
  input only, and are the same whatever the message list holds.
\<close>

theorem missing_history_seeds_welcome:
  assumes "history_unavailable r"
  shows "messages (loadHistory_resume s target r now) = [welcome_message]
       \<and> role welcome_message = Model
       \<and> error (loadHistory_resume s target r now) = error s
       \<and> window (loadHistory_resume s target r now) = window s
       \<and> \<not> isLoadingHistory (loadHistory_resume s target r now)
       \<and> (\<forall>u ms n. snd (sendMessage (u\<lparr>messages := ms\<rparr>) n) = snd (sendMessage u n)
                  \<and> snd (loadHistory (u\<lparr>messages := ms\<rparr>)) = snd (loadHistory u))
       \<and> (\<forall>u n req. snd (sendMessage u n) = Some req \<longrightarrow>
             req = \<lparr>req_sessionId = sessionId u, req_message = trim (input u)\<rparr>)"
proof -
  have "\<And>u n req. snd (sendMessage u n) = Some req \<Longrightarrow>
      req = \<lparr>req_sessionId = sessionId u, req_message = trim (input u)\<rparr>"
    by (auto simp: sendMessage_def Let_def split: if_splits)
  then show ?thesis
    using assms
    by (simp add: resume_without_history send_request_ignores_messages
          load_request_ignores_messages welcome_message_def model_message_def)
qed

theorem missing_history_seeds_welcome_witness:
  "messages (loadHistory_resume (fst (loadHistory new_chat_C)) (utf16 ''C'')
      (GetResponse True (Some [])) 51) = [welcome_message]
   \<and> error (loadHistory_resume failed_A (utf16 ''A'') GetRejected 60) = utf16 ''Request failed.''
   \<and> messages (loadHistory_resume failed_A (utf16 ''A'') GetRejected 60) = [welcome_message]"
proof -
  have e: "history_unavailable (GetResponse True (Some []))"
    by simp
  have f: "history_unavailable GetRejected"
    by simp
  from missing_history_seeds_welcome [OF e, of "fst (loadHistory new_chat_C)" "utf16 ''C''" 51]
       missing_history_seeds_welcome [OF f, of failed_A "utf16 ''A''" 60]
  show ?thesis
    by (simp add: failed_A_eq)
qed

section \<open>Results that arrive after a session switch\<close>

lemma switched_B_eq:
  "switched_B =
     \<lparr>sessionId = utf16 ''B'', sessions = example_sessions, showSidebar = False,
      messages = history_A @ [user_message (utf16 ''second question'')], input = [],
      isTyping = True, isLoadingHistory = False, error = [], window = directory_B\<rparr>"
  by (simp add: switched_B_def handleSwitchSession_def sending_A_eq setCurrentSession_def
        example_directory_def directory_B_def utf16_def)

lemma ready_B_eq:
  "ready_B =
     \<lparr>sessionId = utf16 ''B'', sessions = example_sessions, showSidebar = False,
      messages = [welcome_message], input = [],
      isTyping = True, isLoadingHistory = False, error = [], window = directory_B\<rparr>"
  by (simp add: ready_B_def loadHistory_def loadHistory_resume_def show_welcome_def
        switched_B_eq)

lemma racing_loads_eq:
  "racing_loads =
     \<lparr>sessionId = utf16 ''B'', sessions = example_sessions, showSidebar = False,
      messages = [], input = [], isTyping = False, isLoadingHistory = True, error = [],
      window = directory_B\<rparr>"
  by (simp add: racing_loads_def loadHistory_def handleSwitchSession_def mounted_A_eq
        setCurrentSession_def example_directory_def directory_B_def utf16_def)

lemma shown_B_eq:
  "shown_B =
     \<lparr>sessionId = utf16 ''B'', sessions = example_sessions, showSidebar = False,
      messages = [welcome_message], input = [], isTyping = False,
      isLoadingHistory = False, error = [], window = directory_B\<rparr>"
  by (simp add: shown_B_def loadHistory_resume_def show_welcome_def racing_loads_eq)

lemma second_question_request:
  "sendMessage (setInput ready_A (utf16 '' second question '')) 32 =
     (sending_A, Some \<lparr>req_sessionId = utf16 ''A'', req_message = utf16 ''second question''\<rparr>)"
proof -
  let ?s = "setInput ready_A (utf16 '' second question '')"
  have g: "trim (input ?s) \<noteq> []" "\<not> isTyping ?s" "sessionId ?s \<noteq> []"
    by (simp_all add: typed_second_question)
  have "snd (sendMessage ?s 32) =
      Some \<lparr>req_sessionId = utf16 ''A'', req_message = utf16 ''second question''\<rparr>"
    by (simp add: send_accepts_fields(6) [OF g] typed_second_question)
  then show ?thesis
    by (simp add: sending_A_def prod_eq_iff)
qed

lemma issued_request:
  assumes "sendMessage s now = (s1, Some req)"
  shows "req = \<lparr>req_sessionId = sessionId s, req_message = trim (input s)\<rparr>"
  using assms by (auto simp: sendMessage_def Let_def split: if_splits)

text \<open>
  Claim C1 as stated fails. In the example run the request is issued for session A;
  when its reply arrives the active session is B and B's list, the welcome message,
  is displayed; the reply is appended to that list.
\<close>

theorem stale_reply_counterexample:
  "snd (sendMessage (setInput ready_A (utf16 '' second question '')) 32) =
      Some \<lparr>req_sessionId = utf16 ''A'', req_message = utf16 ''second question''\<rparr>
   \<and> sessionId ready_B = utf16 ''B''
   \<and> messages ready_B = [welcome_message]
   \<and> messages (sendMessage_resume ready_B (PostOk (utf16 ''second answer''))) =
       [welcome_message, \<lparr>role = Model, text' = utf16 ''second answer''\<rparr>]
   \<and> messages (sendMessage_resume ready_B (PostOk (utf16 ''second answer''))) \<noteq>
       messages ready_B"
  by (simp add: second_question_request ready_B_eq sendMessage_resume_def model_message_def)

text \<open>
  Claim C1, as the code has it. A send issued in state \<open>s\<close> is in flight for the session
  of \<open>s\<close>. When the exchange succeeds in a state \<open>t\<close> whose active session is another
  one, the continuation does not compare session ids: it appends the reply, as a
  model message, to the list displayed in \<open>t\<close>, keeps the active session and clears
  the sending flag.
\<close>

theorem stale_reply_is_appended:
  assumes "sendMessage s now = (s1, Some req)"
      and "sessionId t \<noteq> req_sessionId req"
  shows "req_sessionId req = sessionId s
       \<and> messages (sendMessage_resume t (PostOk reply)) =
           messages t @ [\<lparr>role = Model, text' = reply\<rparr>]
       \<and> sessionId (sendMessage_resume t (PostOk reply)) = sessionId t
       \<and> \<not> isTyping (sendMessage_resume t (PostOk reply))"
  using issued_request [OF assms(1)]
  by (simp add: sendMessage_resume_def model_message_def)

theorem stale_reply_is_appended_witness:
  "sessionId ready_B \<noteq> utf16 ''A''
   \<and> messages (sendMessage_resume ready_B (PostOk (utf16 ''second answer''))) =
       messages ready_B @ [\<lparr>role = Model, text' = utf16 ''second answer''\<rparr>]
   \<and> sessionId (sendMessage_resume ready_B (PostOk (utf16 ''second answer''))) = utf16 ''B''"
proof -
  have moved: "sessionId ready_B \<noteq>
      req_sessionId \<lparr>req_sessionId = utf16 ''A'', req_message = utf16 ''second question''\<rparr>"
    by (simp add: ready_B_eq utf16_def)
  from stale_reply_is_appended [OF second_question_request moved, of "utf16 ''second answer''"]
       moved
  show ?thesis
    by (simp add: ready_B_eq)
qed

text \<open>
  Claim C2 as stated fails. In the example run the load issued for session A settles
  after the pointer has moved to B and B's own history is displayed; the list is
  replaced by the history of A all the same.
\<close>

theorem stale_history_counterexample:
  "snd (loadHistory mounted_A) = Some (utf16 ''A'')
   \<and> sessionId shown_B = utf16 ''B''
   \<and> utf16 ''A'' \<noteq> utf16 ''B''
   \<and> messages shown_B = [welcome_message]
   \<and> messages (loadHistory_resume shown_B (utf16 ''A'') (GetResponse True (Some history_A)) 32)
       = history_A
   \<and> messages (loadHistory_resume shown_B (utf16 ''A'') (GetResponse True (Some history_A)) 32)
       \<noteq> messages shown_B"
proof -
  have "messages (loadHistory_resume shown_B (utf16 ''A'') (GetResponse True (Some history_A)) 32)
      = history_A"
    by (simp add: loadHistory_resume_def history_A_def user_message_def Let_def)
  moreover have "history_A \<noteq> [welcome_message]"
    by (simp add: history_A_def)
  ultimately show ?thesis
    by (simp add: loadHistory_def mounted_A_eq shown_B_eq utf16_def)
qed

lemma resume_with_history:
  assumes "ms \<noteq> []"
  shows "messages (loadHistory_resume t target (GetResponse True (Some ms)) now) = ms"
  using assms by (simp add: loadHistory_resume_def Let_def split: option.split)

lemma resume_keeps_session:
  "sessionId (loadHistory_resume t target r now) = sessionId t"
  "\<not> isLoadingHistory (loadHistory_resume t target r now)"
  by (auto simp: loadHistory_resume_def show_welcome_def Let_def
        split: get_result.split option.split)

text \<open>
  Claim C2, as the code has it. The continuation of a history load does not compare
  its target with the active session: also when the pointer has moved to another
  session, it replaces the displayed list, by the returned messages when the fetch
  succeeded with a non-empty list and by the welcome message otherwise, keeps the
  active session and ends the loading state.
\<close>

theorem stale_history_load_replaces_list:
  assumes "sessionId t \<noteq> target"
  shows "sessionId (loadHistory_resume t target r now) = sessionId t
       \<and> (history_unavailable r \<longrightarrow>
            messages (loadHistory_resume t target r now) = [welcome_message])
       \<and> (\<forall>ms. r = GetResponse True (Some ms) \<and> ms \<noteq> [] \<longrightarrow>
            messages (loadHistory_resume t target r now) = ms)
       \<and> \<not> isLoadingHistory (loadHistory_resume t target r now)"
  by (simp add: resume_keeps_session resume_with_history resume_without_history)

theorem stale_history_load_replaces_list_witness:
  "sessionId shown_B \<noteq> utf16 ''A''
   \<and> sessionId (loadHistory_resume shown_B (utf16 ''A'') (GetResponse True (Some history_A)) 32)
       = utf16 ''B''
   \<and> messages (loadHistory_resume shown_B (utf16 ''A'') (GetResponse True (Some history_A)) 32)
       = history_A
   \<and> messages (loadHistory_resume shown_B (utf16 ''A'') GetRejected 32) = [welcome_message]"
proof -
  have moved: "sessionId shown_B \<noteq> utf16 ''A''"
    by (simp add: shown_B_eq utf16_def)
  have ne: "history_A \<noteq> []"
    by (simp add: history_A_def)
  from stale_history_load_replaces_list [OF moved, of "GetResponse True (Some history_A)" 32]
       stale_history_load_replaces_list [OF moved, of GetRejected 32] moved ne
  show ?thesis
    by (simp add: shown_B_eq)
qed

section \<open>A failed exchange\<close>

lemma trim_hello: "trim (utf16 ''hello'') = utf16 ''hello''"
  by (simp add: trim_def utf16_def js_whitespace_def)

lemma typed_hello:
  "trim (input (setInput (fst (loadHistory mounted_A)) (utf16 ''hello''))) = utf16 ''hello''"
  "\<not> isTyping (setInput (fst (loadHistory mounted_A)) (utf16 ''hello''))"
  "sessionId (setInput (fst (loadHistory mounted_A)) (utf16 ''hello'')) = utf16 ''A''"
  "messages (setInput (fst (loadHistory mounted_A)) (utf16 ''hello'')) = []"
  "isLoadingHistory (setInput (fst (loadHistory mounted_A)) (utf16 ''hello''))"
  by (simp_all add: setInput_def loadHistory_def mounted_A_eq trim_hello)

lemma early_send_fields:
  "messages early_send = [user_message (utf16 ''hello'')]"
  "isTyping early_send"
  "sessionId early_send = utf16 ''A''"
proof -
  let ?s = "setInput (fst (loadHistory mounted_A)) (utf16 ''hello'')"
  have g: "trim (input ?s) \<noteq> []" "\<not> isTyping ?s" "sessionId ?s \<noteq> []"
    by (simp_all add: typed_hello)
  show "messages early_send = [user_message (utf16 ''hello'')]"
    unfolding early_send_def by (simp add: send_accepts_fields(1) [OF g] typed_hello)
  show "isTyping early_send"
    unfolding early_send_def by (rule send_accepts_fields(3) [OF g])
  show "sessionId early_send = utf16 ''A''"
    unfolding early_send_def by (simp add: send_accepts_fields(5) [OF g] typed_hello)
qed





section \<open>Creating sessions\<close>

lemma directory_after_pointer [simp]:
  "getAllSessions (setCurrentSession w newId) = getAllSessions w"
  by (cases w) (simp_all add: setCurrentSession_def getAllSessions_def)










end
